theory Spec2Isabelle
  imports Complex_Main
begin

section \<open>Python values\<close>

text \<open>
  A Python \<open>str\<close> is a sequence of code points and a \<open>bytes\<close> object a sequence of
  byte values; both are lists of naturals here, so that \<open>chr(i)\<close> for any
  \<open>i \<le> 0x10FFFF\<close> is a one-element string.  \<open>str\<close> turns a literal of the theory
  into such a sequence.
\<close>

type_synonym pystr = "nat list"
type_synonym pybytes = "nat list"

definition str :: "string \<Rightarrow> pystr" where
  "str s = map of_char s"


section \<open>VBA stomping section of \<open>_create_macro_sections\<close>\<close>



text \<open>
  \<open>_mraptor_check\<close> returns the two attributes \<open>suspicious\<close> and \<open>matches\<close> of one
  \<open>MacroRaptor\<close> object after \<open>scan()\<close>.  \<open>MacroRaptor\<close> belongs to the oletools library,
  not to this repository.  Its \<open>scan\<close> searches the text with three keyword patterns
  (auto-execution, write, execute), appends the matched text of each hit to \<open>matches\<close>
  and sets \<open>suspicious\<close> when there is an auto-execution hit and a write or execute hit.
  The three search outcomes are the arguments of \<open>mraptor_scan\<close>.
\<close>

definition mraptor_scan ::
  "pystr option \<Rightarrow> pystr option \<Rightarrow> pystr option \<Rightarrow> bool \<times> pystr list" where
  "mraptor_scan autoexec write execute =
     (autoexec \<noteq> None \<and> (execute \<noteq> None \<or> write \<noteq> None),
      (case autoexec of None \<Rightarrow> [] | Some m \<Rightarrow> [m])
        @ (case write of None \<Rightarrow> [] | Some m \<Rightarrow> [m])
        @ (case execute of None \<Rightarrow> [] | Some m \<Rightarrow> [m]))"

text \<open>
  What every result of a scan satisfies: the matched lines are non-empty texts (each is
  a keyword found in the text), and a suspicious scan has matched at least one line.
\<close>

definition scan_result :: "bool \<times> pystr list \<Rightarrow> bool" where
  "scan_result r = ((fst r \<longrightarrow> snd r \<noteq> []) \<and> [] \<notin> set (snd r))"

section \<open>Verdict groups of external links in \<open>_check_xml_strings\<close>\<close>





text \<open>\<open>itertools.groupby\<close>: maximal runs of consecutive elements with the same key.\<close>

function groupby :: "('a \<Rightarrow> 'k) \<Rightarrow> 'a list \<Rightarrow> ('k \<times> 'a list) list" where
  "groupby key [] = []"
| "groupby key (x # xs) =
     (key x, x # takeWhile (\<lambda>y. key y = key x) xs)
       # groupby key (dropWhile (\<lambda>y. key y = key x) xs)"
  by pat_completeness auto
termination
  by (relation "measure (\<lambda>(key, xs). length xs)")
     (auto simp: length_dropWhile_le less_Suc_eq_le)










section \<open>Macro randomness score: \<open>_flag_macro\<close>\<close>

text \<open>
  Errors a Python operation of the modelled code can raise.
\<close>

datatype py_error = ZeroDivisionError | IndexError | ValueError pystr

text \<open>The class constant \<open>MACRO_SKIP_WORDS\<close>.\<close>

definition MACRO_SKIP_WORDS :: "string list" where
  "MACRO_SKIP_WORDS =
     [''var'', ''unescape'', ''exec'', ''for'', ''while'', ''array'', ''object'', ''length'',
      ''len'', ''substr'', ''substring'', ''new'', ''unicode'', ''name'', ''base'', ''dim'',
      ''set'', ''public'', ''end'', ''getobject'', ''createobject'', ''content'', ''regexp'',
      ''date'', ''false'', ''true'', ''break'', ''continue'', ''ubound'', ''none'',
      ''undefined'', ''activexobject'', ''document'', ''attribute'', ''shell'',
      ''thisdocument'', ''rem'', ''string'', ''byte'', ''integer'', ''int'', ''function'',
      ''text'', ''next'', ''private'', ''click'', ''change'', ''createtextfile'',
      ''savetofile'', ''responsebody'', ''opentextfile'', ''resume'', ''open'',
      ''environment'', ''write'', ''close'', ''error'', ''else'', ''number'', ''chr'',
      ''sub'', ''loop'']"

text \<open>
  What \<open>_flag_macro\<close> reads of the service: the two configuration values, the table
  \<open>word_chains\<close> loaded at start (\<open>word_chains.get(prefix, [])\<close> is the lookup), and
  \<open>str.lower\<close>, which is the interpreter's mapping over Unicode.  The score is a float
  in the source and a rational here: rounding is not modelled.
\<close>

record macro_config =
  macro_score_max_size :: "int option"
  macro_score_min_alert :: rat
  word_chains :: "pystr \<Rightarrow> pystr list option"
  str_lower :: "pystr \<Rightarrow> pystr"

text \<open>
  \<open>re.finditer("[a-z]{3,}", macro_text)\<close>: the maximal runs of lower-case ASCII letters
  that have at least three letters, from left to right.  \<open>run\<close> is the current run,
  reversed.
\<close>

definition is_lower_az :: "nat \<Rightarrow> bool" where
  "is_lower_az c = (97 \<le> c \<and> c \<le> 122)"

fun macro_words_from :: "pystr \<Rightarrow> pystr \<Rightarrow> pystr list" where
  "macro_words_from run [] = (if 3 \<le> length run then [rev run] else [])"
| "macro_words_from run (c # cs) =
     (if is_lower_az c then macro_words_from (c # run) cs
      else (if 3 \<le> length run then [rev run] else []) @ macro_words_from [] cs)"

definition macro_words :: "pystr \<Rightarrow> pystr list" where
  "macro_words macro_text = macro_words_from [] macro_text"

text \<open>
  The inner loop \<open>for i in range(1, len(word) - 1)\<close>, started with \<open>prefix = word[0]\<close> on
  the rest of the word: \<open>word[i : i + 2]\<close> is looked up in the chain of the prefix, and the
  prefix becomes \<open>word[i]\<close>.
\<close>

fun count_trigraphs :: "(pystr \<Rightarrow> pystr list option) \<Rightarrow> nat \<Rightarrow> pystr \<Rightarrow> nat" where
  "count_trigraphs tbl prefix (a # b # rest) =
     (if [a, b] \<in> set (case tbl [prefix] of None \<Rightarrow> [] | Some ts \<Rightarrow> ts) then 1 else 0)
       + count_trigraphs tbl a (b # rest)"
| "count_trigraphs tbl prefix [a] = 0"
| "count_trigraphs tbl prefix [] = 0"

text \<open>Python's \<open>/\<close>, which raises on a zero divisor.\<close>

definition py_truediv :: "rat \<Rightarrow> int \<Rightarrow> py_error + rat" where
  "py_truediv a b = (if b = 0 then Inl ZeroDivisionError else Inr (a / of_int b))"

text \<open>
  The loop over the words, on the state \<open>(score, word_count, byte_count)\<close>.
\<close>

fun score_words ::
  "macro_config \<Rightarrow> pystr list \<Rightarrow> rat \<times> nat \<times> nat \<Rightarrow> py_error + (rat \<times> nat \<times> nat)" where
  "score_words cfg [] st = Inr st"
| "score_words cfg (word # ws) (acc, word_count, byte_count) =
     (if word \<in> set (map str MACRO_SKIP_WORDS)
      then score_words cfg ws (acc, word_count + 1, byte_count + length word)
      else case word of
             [] \<Rightarrow> Inl IndexError
           | prefix # rest \<Rightarrow>
               (case py_truediv (of_nat (count_trigraphs (word_chains cfg) prefix rest))
                       (int (length word) - 2) of
                  Inl e \<Rightarrow> Inl e
                | Inr q \<Rightarrow>
                    score_words cfg ws (acc + q, word_count + 1, byte_count + length word)))"

definition flag_macro :: "macro_config \<Rightarrow> pystr \<Rightarrow> py_error + bool" where
  "flag_macro cfg macro_text =
     (if (case macro_score_max_size cfg of None \<Rightarrow> False
          | Some m \<Rightarrow> int (length macro_text) > m)
      then Inr False
      else case score_words cfg (macro_words (str_lower cfg macro_text)) (0, 0, 0) of
             Inl e \<Rightarrow> Inl e
           | Inr (acc, word_count, byte_count) \<Rightarrow>
               if byte_count < 128 \<or> word_count < 32 then Inr False
               else (case py_truediv acc (int word_count) of
                       Inl e \<Rightarrow> Inl e
                     | Inr q \<Rightarrow> Inr (q < macro_score_min_alert cfg)))"

section \<open>Macro deobfuscation: \<open>_deobfuscator\<close>\<close>
























section \<open>Stomping: when it is reported and what is shown\<close>

lemma mraptor_scan_result:
  "a \<noteq> Some [] \<Longrightarrow> w \<noteq> Some [] \<Longrightarrow> e \<noteq> Some [] \<Longrightarrow> scan_result (mraptor_scan a w e)"
  by (cases a; cases w; cases e) (simp_all add: scan_result_def mraptor_scan_def)








section \<open>Verdict groups: thresholds and the heuristic of a group\<close>


lemma groupby_concat: "concat (map snd (groupby key xs)) = xs"
  by (induction key xs rule: groupby.induct) auto














section \<open>\<open>_flag_macro\<close> never divides by zero\<close>

lemma macro_words_from_length:
  "w \<in> set (macro_words_from run cs) \<Longrightarrow> 3 \<le> length w"
  by (induction cs arbitrary: run) (auto split: if_splits)

lemma macro_words_length: "w \<in> set (macro_words t) \<Longrightarrow> 3 \<le> length w"
  unfolding macro_words_def by (rule macro_words_from_length)

lemma score_words_total:
  "(\<And>w. w \<in> set ws \<Longrightarrow> 3 \<le> length w) \<Longrightarrow>
     \<exists>s b. score_words cfg ws (s0, n, b0) = Inr (s, n + length ws, b)"
proof (induction ws arbitrary: s0 n b0)
  case Nil
  show ?case by simp
next
  case (Cons word ws)
  have len: "3 \<le> length word" by (rule Cons.prems) simp
  have rest: "\<And>w. w \<in> set ws \<Longrightarrow> 3 \<le> length w" by (rule Cons.prems) simp
  from len obtain prefix tl where w: "word = prefix # tl" by (cases word) auto
  from len have d: "int (length word) - 2 \<noteq> 0" by simp
  show ?case
  proof (cases "word \<in> set (map str MACRO_SKIP_WORDS)")
    case True
    from Cons.IH [OF rest, of s0 "n + 1" "b0 + length word"] True
    show ?thesis by auto
  next
    case False
    let ?q = "of_nat (count_trigraphs (word_chains cfg) prefix tl) / of_int (int (length word) - 2)"
    from Cons.IH [OF rest, of "s0 + ?q" "n + 1" "b0 + length word"]
    obtain s b where "score_words cfg ws (s0 + ?q, n + 1, b0 + length word)
        = Inr (s, n + 1 + length ws, b)" by blast
    with False d w show ?thesis by (simp add: py_truediv_def)
  qed
qed

text \<open>
  C10.  For every configuration and every text, \<open>_flag_macro\<close> returns a truth value: no
  division raises.  Each scored word has at least three letters, so the divisor
  \<open>len(word) - 2\<close> of its fraction is at least 1; the loop counts every word, and the
  last division, by the word count, is reached only with at least 32 words.
\<close>

theorem flag_macro_no_zero_division:
  "(\<exists>b. flag_macro cfg macro_text = Inr b)
   \<and> (\<forall>w\<in>set (macro_words (str_lower cfg macro_text)). 1 \<le> int (length w) - 2)
   \<and> (\<exists>s b. score_words cfg (macro_words (str_lower cfg macro_text)) (0, 0, 0)
              = Inr (s, length (macro_words (str_lower cfg macro_text)), b)
            \<and> (\<not> (b < 128 \<or> length (macro_words (str_lower cfg macro_text)) < 32)
                 \<longrightarrow> py_truediv s (int (length (macro_words (str_lower cfg macro_text))))
                      = Inr (s / of_nat (length (macro_words (str_lower cfg macro_text))))))"
proof -
  let ?ws = "macro_words (str_lower cfg macro_text)"
  have l: "\<And>w. w \<in> set ?ws \<Longrightarrow> 3 \<le> length w" by (rule macro_words_length)
  from score_words_total [OF l, of ?ws cfg 0 0 0]
  obtain s b where sw: "score_words cfg ?ws (0, 0, 0) = Inr (s, length ?ws, b)" by auto
  have d: "\<not> (b < 128 \<or> length ?ws < 32) \<longrightarrow>
        py_truediv s (int (length ?ws)) = Inr (s / of_nat (length ?ws))"
    by (simp add: py_truediv_def)
  have "\<exists>r. flag_macro cfg macro_text = Inr r"
    unfolding flag_macro_def sw by (auto simp: py_truediv_def split: option.splits)
  moreover have "\<forall>w\<in>set ?ws. 1 \<le> int (length w) - 2"
    using l by fastforce
  ultimately show ?thesis using sw d by blast
qed


theorem flag_macro_no_zero_division_witness:
  "flag_macro \<lparr>macro_score_max_size = None, macro_score_min_alert = 6 / 10,
                 word_chains = (\<lambda>p. if p = [97] then Some [[98, 99]] else None),
                 str_lower = (\<lambda>t. t)\<rparr>
     (str ''abcd abcd abcd abcd abcd abcd abcd abcd abcd abcd abcd abcd abcd abcd abcd abcd abcd abcd abcd abcd abcd abcd abcd abcd abcd abcd abcd abcd abcd abcd abcd abcd '') = Inr True
   \<and> length (macro_words (str ''abcd abcd abcd abcd abcd abcd abcd abcd abcd abcd abcd abcd abcd abcd abcd abcd abcd abcd abcd abcd abcd abcd abcd abcd abcd abcd abcd abcd abcd abcd abcd abcd '')) = 32
   \<and> 1 \<le> int (length [97, 98, 99, 100 :: nat]) - 2"
proof -
  let ?cfg = "\<lparr>macro_score_max_size = None, macro_score_min_alert = 6 / 10,
                 word_chains = (\<lambda>p. if p = [97] then Some [[98, 99]] else None),
                 str_lower = (\<lambda>t. t)\<rparr>"
  let ?t = "str ''abcd abcd abcd abcd abcd abcd abcd abcd abcd abcd abcd abcd abcd abcd abcd abcd abcd abcd abcd abcd abcd abcd abcd abcd abcd abcd abcd abcd abcd abcd abcd abcd ''"
  have w: "macro_words ?t = [[97, 98, 99, 100], [97, 98, 99, 100], [97, 98, 99, 100], [97, 98, 99, 100], [97, 98, 99, 100], [97, 98, 99, 100], [97, 98, 99, 100], [97, 98, 99, 100], [97, 98, 99, 100], [97, 98, 99, 100], [97, 98, 99, 100], [97, 98, 99, 100], [97, 98, 99, 100], [97, 98, 99, 100], [97, 98, 99, 100], [97, 98, 99, 100], [97, 98, 99, 100], [97, 98, 99, 100], [97, 98, 99, 100], [97, 98, 99, 100], [97, 98, 99, 100], [97, 98, 99, 100], [97, 98, 99, 100], [97, 98, 99, 100], [97, 98, 99, 100], [97, 98, 99, 100], [97, 98, 99, 100], [97, 98, 99, 100], [97, 98, 99, 100], [97, 98, 99, 100], [97, 98, 99, 100], [97, 98, 99, 100]]"
    by (simp add: macro_words_def str_def is_lower_az_def)
  have nskip: "[97, 98, 99, 100] \<notin> set (map str MACRO_SKIP_WORDS)"
    by (simp add: MACRO_SKIP_WORDS_def str_def)
  have step: "score_words ?cfg ([97, 98, 99, 100] # ws) (a, n, b)
                = score_words ?cfg ws (a + 1 / 2, Suc n, Suc (Suc (Suc (Suc b))))" for ws a n b
    using nskip by (simp add: py_truediv_def)
  have sw: "score_words ?cfg [[97, 98, 99, 100], [97, 98, 99, 100], [97, 98, 99, 100], [97, 98, 99, 100], [97, 98, 99, 100], [97, 98, 99, 100], [97, 98, 99, 100], [97, 98, 99, 100], [97, 98, 99, 100], [97, 98, 99, 100], [97, 98, 99, 100], [97, 98, 99, 100], [97, 98, 99, 100], [97, 98, 99, 100], [97, 98, 99, 100], [97, 98, 99, 100], [97, 98, 99, 100], [97, 98, 99, 100], [97, 98, 99, 100], [97, 98, 99, 100], [97, 98, 99, 100], [97, 98, 99, 100], [97, 98, 99, 100], [97, 98, 99, 100], [97, 98, 99, 100], [97, 98, 99, 100], [97, 98, 99, 100], [97, 98, 99, 100], [97, 98, 99, 100], [97, 98, 99, 100], [97, 98, 99, 100], [97, 98, 99, 100]] (0, 0, 0) = Inr (16, 32, 128)"
    unfolding step by simp
  have f: "flag_macro ?cfg ?t = Inr True"
    unfolding flag_macro_def by (simp add: w sw py_truediv_def)
  from flag_macro_no_zero_division [of ?cfg ?t]
  have a: "\<forall>w\<in>set (macro_words ?t). 1 \<le> int (length w) - 2" by simp
  have "[97, 98, 99, 100] \<in> set (macro_words ?t)" by (simp add: w)
  with a have "1 \<le> int (length [97, 98, 99, 100 :: nat]) - 2" by (rule bspec)
  moreover have "length (macro_words ?t) = 32" by (simp add: w)
  ultimately show ?thesis using f by blast
qed

section \<open>Deobfuscation: string concatenation\<close>














end
